theory Spec2Isabelle
  imports Main
begin

section \<open>Host-language values\<close>

text \<open>
  Strings are \<open>string\<close>. A value that may be \<open>null\<close> or \<open>undefined\<close> is an
  \<open>option\<close>. The truthiness test the components apply to such strings
  (\<open>!groupId\<close>, \<open>!session?.user?.email\<close>, \<open>shareLink.expires_at && ...\<close>)
  fails for \<open>null\<close> and for the empty string.
\<close>

definition truthy :: "string option \<Rightarrow> bool" where
  "truthy x = (case x of None \<Rightarrow> False | Some s \<Rightarrow> s \<noteq> [])"

text \<open>
  A time value: the milliseconds of a \<open>Date\<close>, or \<open>NaN\<close> for an invalid date.
  A comparison with \<open>NaN\<close> is false.

  Two functions of the host are not part of the components and are parameters
  of everything that calls them: \<open>toLowerCase\<close>, which is
  \<open>String.prototype.toLowerCase\<close>, and \<open>getTime\<close>, where \<open>getTime s\<close> is
  \<open>new Date(s).getTime()\<close>.
\<close>

datatype number = Num int | NaN

fun lt :: "number \<Rightarrow> number \<Rightarrow> bool" where
  "lt (Num a) (Num b) = (a < b)"
| "lt _ _ = False"

text \<open>Decimal rendering of an integer inside a template literal.\<close>

definition digit :: "nat \<Rightarrow> char" where
  "digit d = char_of (48 + d)"

fun showNat :: "nat \<Rightarrow> string" where
  "showNat n = (if n < 10 then [digit n] else showNat (n div 10) @ [digit (n mod 10)])"

declare showNat.simps [simp del]

definition showInt :: "int \<Rightarrow> string" where
  "showInt i = (if i < 0 then CHR ''-'' # showNat (nat (- i)) else showNat (nat i))"

section \<open>Countdown text\<close>

text \<open>
  \<open>formatTimeRemaining\<close> of \<open>SharedGroupView\<close>. \<open>Math.floor (a / b)\<close> for a positive
  \<open>b\<close> is \<open>div\<close> on \<open>int\<close>. The remainder \<open>%\<close> is only evaluated in a branch where
  its left operand is positive, where it agrees with \<open>mod\<close>.
\<close>

definition formatTimeRemaining :: "int \<Rightarrow> string" where
  "formatTimeRemaining ms =
     (let seconds = ms div 1000;
          minutes = seconds div 60;
          hours = minutes div 60;
          days = hours div 24
      in if days > 0 then showInt days @ ''d '' @ showInt (hours mod 24) @ ''h''
         else if hours > 0 then showInt hours @ ''h '' @ showInt (minutes mod 60) @ ''m''
         else if minutes > 0 then showInt minutes @ ''m '' @ showInt (seconds mod 60) @ ''s''
         else showInt seconds @ ''s'')"

section \<open>Share links and the shared view\<close>

datatype access = anyone | restricted

record ShareLink =
  link_id :: string
  group_id :: string
  access_token :: string
  expires_at :: "string option"
  one_time_view :: bool
  views_count :: int
  access_type :: access
  allowed_emails :: "string list option"

record Code =
  code_id :: string
  code_group_id :: string
  code_text :: string
  created_at :: string
  code_expires_at :: string

record SharedGroup =
  group_key :: string
  title :: string
  description :: "string option"
  codes :: "Code list option"

text \<open>
  The answer of a backend query, \<open>{ data, error }\<close>; the error object is held by
  its message.
\<close>

datatype 'a reply = Reply (reply_data: "'a option") (reply_error: "string option")

text \<open>The requests a component sends to the backend, in the order they are sent.\<close>

datatype call =
    GetSession
  | SelectShareLink string string
  | HandleShareLinkView string string
  | SelectGroup string
  | SelectLatestCode string
  | SelectLinkId string
  | GenerateTOTP string
  | UpdateModelCode string string

text \<open>The state hooks of \<open>SharedGroupView\<close>.\<close>

record view =
  loading :: bool
  error :: "string option"
  group :: "SharedGroup option"
  latestCode :: "Code option"
  shareLink :: "ShareLink option"
  linkTimeRemaining :: "int option"
  isNearingExpiry :: bool
  wasDeleted :: bool

text \<open>
  What the component closes over: the backend client (absent when it is not
  configured) and the router's \<open>groupId\<close> and \<open>token\<close>.
\<close>

record route =
  supabase :: bool
  groupId :: "string option"
  token :: "string option"

text \<open>
  \<open>verifyShareLink\<close>. The inputs beyond the route are what its two awaited calls
  return (the session's email and the row of \<open>shared_links\<close> for the group and
  token) and the clock. The result is the returned boolean, the requests sent,
  and the view after \<open>setError\<close>.
\<close>

definition verifyShareLink ::
  "(string \<Rightarrow> string) \<Rightarrow> (string \<Rightarrow> number) \<Rightarrow> route \<Rightarrow> string option
     \<Rightarrow> ShareLink reply \<Rightarrow> int \<Rightarrow> view \<Rightarrow> bool \<times> call list \<times> view"
where
  "verifyShareLink toLowerCase getTime r sessionEmail found now v =
     (case (supabase r, groupId r, token r) of
        (True, Some g, Some t) \<Rightarrow>
          if g = [] \<or> t = [] then (False, [], v\<lparr>error := Some ''Invalid link parameters''\<rparr>)
          else
            let sent = [GetSession, SelectShareLink g t] in
            (case (reply_error found, reply_data found) of
               (None, Some link) \<Rightarrow>
                 if access_type link = restricted \<and> \<not> truthy sessionEmail then
                   (False, sent, v\<lparr>error := Some ''You must be logged in to access this link''\<rparr>)
                 else if access_type link = restricted \<and>
                     toLowerCase (the sessionEmail)
                       \<notin> set (case allowed_emails link of None \<Rightarrow> [] | Some es \<Rightarrow> es) then
                   (False, sent, v\<lparr>error := Some (''Access denied. Your email (''
                      @ toLowerCase (the sessionEmail)
                      @ '') is not authorized to view this link.'')\<rparr>)
                 else if (case expires_at link of
                            None \<Rightarrow> False
                          | Some e \<Rightarrow> e \<noteq> [] \<and> lt (getTime e) (Num now)) then
                   (False, sent, v\<lparr>error := Some ''This share link has expired''\<rparr>)
                 else (True, sent, v)
             | _ \<Rightarrow>
                 (False, sent, v\<lparr>error := Some ''This share link is invalid or has been deleted''\<rparr>))
      | _ \<Rightarrow> (False, [], v\<lparr>error := Some ''Invalid link parameters''\<rparr>))"

text \<open>
  \<open>validateLinkExists\<close>: asks the backend whether the row of the viewed link is
  still there. \<open>answer\<close> is what the query returns.
\<close>

definition validateLinkExists :: "route \<Rightarrow> string reply \<Rightarrow> view \<Rightarrow> call list \<times> view" where
  "validateLinkExists r answer v =
     (case (supabase r, groupId r, shareLink v) of
        (True, Some g, Some l) \<Rightarrow>
          if g = [] \<or> link_id l = [] then ([], v)
          else
            let sent = [SelectLinkId (link_id l)] in
            if reply_error answer \<noteq> None then (sent, v)
            else if reply_data answer = None then
              (sent, v\<lparr>wasDeleted := True,
                        error := Some ''This shared link has been deleted by the administrator.'',
                        group := None\<rparr>)
            else (sent, v)
      | _ \<Rightarrow> ([], v))"

text \<open>
  The realtime effect subscribes only when the client, the group id and the id of
  the viewed link are present; \<open>subscribed\<close> is that guard. The callback of the
  \<open>DELETE\<close> channel logs its payload and calls \<open>validateLinkExists\<close>; without a
  subscription there is no callback to run. The effect and \<open>validateLinkExists\<close>
  are both rebuilt when the group id or the id of the viewed link changes, so the
  callback reads the link of the view it runs in.
\<close>

definition subscribed :: "route \<Rightarrow> view \<Rightarrow> bool" where
  "subscribed r v =
     (supabase r \<and> truthy (groupId r) \<and>
      (case shareLink v of None \<Rightarrow> False | Some l \<Rightarrow> link_id l \<noteq> []))"

definition linkChannel :: "route \<Rightarrow> 'payload \<Rightarrow> string reply \<Rightarrow> view \<Rightarrow> (call list \<times> view) option" where
  "linkChannel r payload answer v =
     (if subscribed r v then Some (validateLinkExists r answer v) else None)"

text \<open>
  The callback of the \<open>INSERT\<close> channel on \<open>codes\<close>: fetch the most recent row and
  show it when there is one.
\<close>

definition codeChannel :: "route \<Rightarrow> 'payload \<Rightarrow> Code list reply \<Rightarrow> view \<Rightarrow> (call list \<times> view) option" where
  "codeChannel r payload answer v =
     (if subscribed r v then
        Some ([SelectLatestCode (the (groupId r))],
              (case reply_data answer of Some (c # _) \<Rightarrow> v\<lparr>latestCode := Some c\<rparr> | _ \<Rightarrow> v))
      else None)"

text \<open>
  The countdown of the view against \<open>shareLink.expires_at\<close>, run at once and then
  every second (\<open>updateTimer\<close> of the remaining-time effect). Without an expiry
  the effect returns before it defines the timer. For a string that is not a
  date, \<open>expiryDate.toISOString()\<close> in the logging call throws before any
  setter runs.
\<close>

datatype exn = RangeError

definition updateTimer_link :: "(string \<Rightarrow> number) \<Rightarrow> int \<Rightarrow> view \<Rightarrow> exn + view" where
  "updateTimer_link getTime now v =
     (case shareLink v of
        None \<Rightarrow> Inr v
      | Some l \<Rightarrow>
          (case expires_at l of
             None \<Rightarrow> Inr v
           | Some e \<Rightarrow>
               if e = [] then Inr v
               else
                 (case getTime e of
                    NaN \<Rightarrow> Inl RangeError
                  | Num expiry \<Rightarrow>
                      let remainingMs = expiry - now in
                      if remainingMs \<le> 0 then
                        Inr (v\<lparr>linkTimeRemaining := Some 0,
                               error := Some ''This share link has expired''\<rparr>)
                      else
                        Inr (v\<lparr>linkTimeRemaining := Some remainingMs,
                               isNearingExpiry := (remainingMs div (1000 * 60) < 5)\<rparr>))))"

definition getStatusMessage :: "view \<Rightarrow> string" where
  "getStatusMessage v =
     (case shareLink v of
        None \<Rightarrow> []
      | Some l \<Rightarrow>
          if \<not> truthy (expires_at l) then
            (if one_time_view l then ''Single-use link (expires after viewing)''
             else ''No expiration'')
          else
            (case linkTimeRemaining v of
               None \<Rightarrow> ''Link expired''
             | Some ms \<Rightarrow>
                 if ms \<le> 0 then ''Link expired''
                 else if one_time_view l then
                   ''Single-use link (expires in '' @ formatTimeRemaining ms @ '')''
                 else ''Link expires in '' @ formatTimeRemaining ms))"

text \<open>
  What the component returns: the error card (heading and message) as soon as
  \<open>error\<close> is a non-empty string, else the loading line, else the group card
  (the group, the one-time warning, the code text and the status message).
\<close>

datatype screen =
    ErrorCard string string
  | LoadingLine
  | GroupCard SharedGroup bool string string

definition render :: "view \<Rightarrow> screen" where
  "render v =
     (if truthy (error v) then
        ErrorCard (if wasDeleted v then ''Link Deleted'' else ''Access Denied'') (the (error v))
      else
        (case group v of
           None \<Rightarrow> LoadingLine
         | Some g \<Rightarrow>
             if loading v then LoadingLine
             else GroupCard g
                    (case shareLink v of None \<Rightarrow> False | Some l \<Rightarrow> one_time_view l)
                    (case latestCode v of
                       None \<Rightarrow> ''------''
                     | Some c \<Rightarrow> if code_text c = [] then ''------'' else code_text c)
                    (getStatusMessage v)))"

text \<open>
  \<open>loadSharedGroup\<close> of the initial-fetch effect. \<open>mounted k\<close> is the value of the
  flag \<open>mounted\<close> when the \<open>k\<close>-th awaited step of the function has returned
  (1: \<open>verifyShareLink\<close>, 2: the procedure \<open>handle_share_link_view\<close>, 3: the group
  query, 4: the latest-code query); the cleanup of the effect may clear it during
  any of them. \<open>rpc\<close>, \<open>groupAns\<close> and \<open>codesAns\<close> are what steps 2 to 4 return.
  The \<open>catch\<close> and \<open>finally\<close> blocks are the two functions below.
\<close>

definition loadSharedGroup_catch :: "bool \<Rightarrow> string \<Rightarrow> view \<Rightarrow> view" where
  "loadSharedGroup_catch m msg v =
     (if m then v\<lparr>error := Some (if msg = [] then ''Failed to load shared group'' else msg)\<rparr>
      else v)"

definition loadSharedGroup_finally :: "bool \<Rightarrow> view \<Rightarrow> view" where
  "loadSharedGroup_finally m v = (if m then v\<lparr>loading := False\<rparr> else v)"

definition loadSharedGroup ::
  "(string \<Rightarrow> string) \<Rightarrow> (string \<Rightarrow> number) \<Rightarrow> route \<Rightarrow> string option
     \<Rightarrow> ShareLink reply \<Rightarrow> int \<Rightarrow> (nat \<Rightarrow> bool)
     \<Rightarrow> ShareLink option reply \<Rightarrow> SharedGroup reply \<Rightarrow> Code list reply \<Rightarrow> view
     \<Rightarrow> call list \<times> view"
where
  "loadSharedGroup toLowerCase getTime r sessionEmail found now mounted rpc groupAns codesAns v =
     (case (supabase r, groupId r, token r) of
        (True, Some g, Some t) \<Rightarrow>
          if g = [] \<or> t = [] then
            ([], v\<lparr>error := Some ''Invalid link parameters'', loading := False\<rparr>)
          else
            (case verifyShareLink toLowerCase getTime r sessionEmail found now v of
               (isValid, sent1, v1) \<Rightarrow>
                 if \<not> isValid \<or> \<not> mounted 1 then (sent1, loadSharedGroup_finally (mounted 1) v1)
                 else
                   let sent2 = sent1 @ [HandleShareLinkView g t] in
                   (case (reply_error rpc, reply_data rpc) of
                      (Some msg, _) \<Rightarrow>
                        (sent2, loadSharedGroup_finally (mounted 2)
                                  (loadSharedGroup_catch (mounted 2) msg v1))
                    | (None, Some (Some link)) \<Rightarrow>
                        let v2 = (if mounted 2 then v1\<lparr>shareLink := Some link\<rparr> else v1);
                            sent3 = sent2 @ [SelectGroup g]
                        in
                        (case reply_error groupAns of
                           Some msg \<Rightarrow>
                             (sent3, loadSharedGroup_finally (mounted 3)
                                       (loadSharedGroup_catch (mounted 3) msg v2))
                         | None \<Rightarrow>
                             let sent4 = sent3 @ [SelectLatestCode g];
                                 v3 = (case reply_error codesAns of
                                         Some _ \<Rightarrow> v2
                                       | None \<Rightarrow>
                                           v2\<lparr>latestCode :=
                                                 (case reply_data codesAns of
                                                    Some (c # _) \<Rightarrow> Some c
                                                  | _ \<Rightarrow> None)\<rparr>);
                                 v4 = (if mounted 4 then v3\<lparr>group := reply_data groupAns\<rparr> else v3)
                             in (sent4, loadSharedGroup_finally (mounted 4) v4))
                    | (None, _) \<Rightarrow>
                        (sent2, loadSharedGroup_finally (mounted 2)
                                  (loadSharedGroup_catch (mounted 2)
                                     ''Share link not found or already used'' v1))))
      | _ \<Rightarrow> ([], v\<lparr>error := Some ''Invalid link parameters'', loading := False\<rparr>))"

text \<open>
  The periodic verification of the same effect, every ten seconds: \<open>mounted\<close> is
  the flag when \<open>verifyShareLink\<close> has returned.
\<close>

definition checkInterval ::
  "(string \<Rightarrow> string) \<Rightarrow> (string \<Rightarrow> number) \<Rightarrow> route \<Rightarrow> string option
     \<Rightarrow> ShareLink reply \<Rightarrow> int \<Rightarrow> bool \<Rightarrow> view \<Rightarrow> call list \<times> view"
where
  "checkInterval toLowerCase getTime r sessionEmail found now mounted v =
     (case verifyShareLink toLowerCase getTime r sessionEmail found now v of
        (isStillValid, sent, v1) \<Rightarrow>
          if \<not> isStillValid \<and> mounted then
            (sent, v1\<lparr>error := Some ''This share link is no longer valid'', group := None\<rparr>)
          else (sent, v1))"

text \<open>The view as \<open>useState\<close> initialises it.\<close>

definition initial_view :: view where
  "initial_view =
     \<lparr>loading = True, error = None, group = None, latestCode = None, shareLink = None,
      linkTimeRemaining = None, isNearingExpiry = False, wasDeleted = False\<rparr>"

text \<open>
  A sample of \<open>toLowerCase\<close>: the function that lowers the letters \<open>A\<close> .. \<open>Z\<close>
  (codes 65 .. 90) and keeps every other character. It is what
  \<open>String.prototype.toLowerCase\<close> computes on a string of ASCII characters, and it
  is applied to such strings only.
\<close>

definition asciiLowerChar :: "char \<Rightarrow> char" where
  "asciiLowerChar c =
     (let n = (of_char c :: nat) in if 65 \<le> n \<and> n \<le> 90 then char_of (n + 32) else c)"

definition asciiLowerCase :: "string \<Rightarrow> string" where
  "asciiLowerCase s = map asciiLowerChar s"

text \<open>
  A sample of \<open>new Date(s).getTime()\<close>: the first instant of 2024 in UTC is
  1704067200000 ms after the epoch; any other string of the sample is not a date.
\<close>

definition sampleTime :: "string \<Rightarrow> number" where
  "sampleTime s = (if s = ''2024-01-01T00:00:00.000Z'' then Num 1704067200000 else NaN)"

definition sampleRoute :: route where
  "sampleRoute = \<lparr>supabase = True, groupId = Some ''g1'', token = Some ''tok''\<rparr>"

definition sampleLink :: ShareLink where
  "sampleLink =
     \<lparr>link_id = ''l1'', group_id = ''g1'', access_token = ''tok'',
      expires_at = Some ''2024-01-01T00:00:00.000Z'', one_time_view = False, views_count = 0,
      access_type = anyone, allowed_emails = None\<rparr>"

section \<open>The code publisher\<close>

text \<open>
  \<open>TOTPDisplay\<close>: the three state hooks (\<open>code\<close>, \<open>updateError\<close>,
  \<open>timeRemaining\<close>), the variables of the running effect (\<open>isActive\<close> and the two
  interval timers, \<open>True\<close> while armed), the invocations of \<open>updateCode\<close> that
  are suspended at an \<open>await\<close>, and the requests sent so far.
\<close>

datatype pending = AwaitGenerate | AwaitPersist

datatype 'a settled = Fulfilled 'a | Thrown

record TOTPDisplay =
  code :: string
  updateError :: bool
  timeRemaining :: int
  isActive :: bool
  timerInterval :: bool
  forceUpdateInterval :: bool
  inflight :: "pending list"
  requests :: "call list"

text \<open>
  \<open>updateCode\<close> runs in three pieces, cut at its two \<open>await\<close>s: up to the call
  of \<open>generateTOTP\<close>; from its outcome up to the call of \<open>updateModelCode\<close>;
  and from that outcome to the end. An outcome \<open>Thrown\<close> enters the \<open>catch\<close>
  block, whichever of the two calls threw.
\<close>

definition updateCode :: "string \<Rightarrow> TOTPDisplay \<Rightarrow> TOTPDisplay" where
  "updateCode secret p =
     (if \<not> isActive p then p
      else p\<lparr>inflight := inflight p @ [AwaitGenerate],
             requests := requests p @ [GenerateTOTP secret]\<rparr>)"

definition updateCode_catch :: "TOTPDisplay \<Rightarrow> TOTPDisplay" where
  "updateCode_catch p =
     (if \<not> isActive p then p else p\<lparr>updateError := True, code := ''Error''\<rparr>)"

definition drop_at :: "nat \<Rightarrow> 'a list \<Rightarrow> 'a list" where
  "drop_at i xs = take i xs @ drop (Suc i) xs"

definition updateCode_generated ::
  "string \<Rightarrow> nat \<Rightarrow> string settled \<Rightarrow> TOTPDisplay \<Rightarrow> TOTPDisplay"
where
  "updateCode_generated modelId i outcome p =
     (if i < length (inflight p) \<and> inflight p ! i = AwaitGenerate then
        (case outcome of
           Fulfilled newCode \<Rightarrow>
             if \<not> isActive p then p\<lparr>inflight := drop_at i (inflight p)\<rparr>
             else p\<lparr>code := newCode,
                    inflight := (inflight p)[i := AwaitPersist],
                    requests := requests p @ [UpdateModelCode modelId newCode]\<rparr>
         | Thrown \<Rightarrow> updateCode_catch (p\<lparr>inflight := drop_at i (inflight p)\<rparr>))
      else p)"

definition updateCode_persisted :: "nat \<Rightarrow> bool settled \<Rightarrow> TOTPDisplay \<Rightarrow> TOTPDisplay" where
  "updateCode_persisted i outcome p =
     (if i < length (inflight p) \<and> inflight p ! i = AwaitPersist then
        (let q = p\<lparr>inflight := drop_at i (inflight p)\<rparr> in
         case outcome of
           Fulfilled updated \<Rightarrow>
             if \<not> isActive q then q
             else if \<not> updated then q\<lparr>updateError := True\<rparr>
             else q\<lparr>updateError := False\<rparr>
         | Thrown \<Rightarrow> updateCode_catch q)
      else p)"

text \<open>
  \<open>updateTimer\<close>; \<open>remaining\<close> is what \<open>getTimeRemaining()\<close> returns at the tick.
\<close>

definition updateTimer :: "string \<Rightarrow> int \<Rightarrow> TOTPDisplay \<Rightarrow> TOTPDisplay" where
  "updateTimer secret remaining p =
     (if \<not> isActive p then p
      else
        let q = p\<lparr>timeRemaining := remaining\<rparr> in
        if remaining = 30 \<or> remaining = 0 then updateCode secret q else q)"

definition forceUpdate :: "string \<Rightarrow> TOTPDisplay \<Rightarrow> TOTPDisplay" where
  "forceUpdate secret p = (if \<not> isActive p then p else updateCode secret p)"

text \<open>
  The body of the effect and its cleanup. For a secret that is \<open>null\<close> or empty
  the effect returns at once: nothing is generated and no timer is armed.
\<close>

definition activate :: "string option \<Rightarrow> int \<Rightarrow> TOTPDisplay \<Rightarrow> TOTPDisplay" where
  "activate secret remaining p =
     (case secret of
        None \<Rightarrow> p
      | Some s \<Rightarrow>
          if s = [] then p
          else
            (updateTimer s remaining (updateCode s (p\<lparr>isActive := True\<rparr>)))
              \<lparr>forceUpdateInterval := True, timerInterval := True\<rparr>)"

definition cleanup :: "TOTPDisplay \<Rightarrow> TOTPDisplay" where
  "cleanup p = p\<lparr>isActive := False, timerInterval := False, forceUpdateInterval := False\<rparr>"

definition initial_display :: TOTPDisplay where
  "initial_display =
     \<lparr>code = [], updateError = False, timeRemaining = 30, isActive = False,
      timerInterval = False, forceUpdateInterval = False, inflight = [], requests = []\<rparr>"

text \<open>
  What the event loop can run next: a tick of the one-second timer, a tick of the
  thirty-second timer (each only while armed), the outcome of a suspended call
  (the \<open>i\<close>-th of \<open>inflight\<close>), or the cleanup of the effect.
\<close>

datatype event =
    Tick int
  | Force
  | Generated nat "string settled"
  | Persisted nat "bool settled"
  | Deactivate

definition step :: "string \<Rightarrow> string \<Rightarrow> event \<Rightarrow> TOTPDisplay \<Rightarrow> TOTPDisplay" where
  "step secret modelId ev p =
     (case ev of
        Tick remaining \<Rightarrow> if timerInterval p then updateTimer secret remaining p else p
      | Force \<Rightarrow> if forceUpdateInterval p then forceUpdate secret p else p
      | Generated i outcome \<Rightarrow> updateCode_generated modelId i outcome p
      | Persisted i outcome \<Rightarrow> updateCode_persisted i outcome p
      | Deactivate \<Rightarrow> cleanup p)"

primrec run :: "string \<Rightarrow> string \<Rightarrow> event list \<Rightarrow> TOTPDisplay \<Rightarrow> TOTPDisplay" where
  "run secret modelId [] p = p"
| "run secret modelId (ev # evs) p = run secret modelId evs (step secret modelId ev p)"

text \<open>A load during which the effect is never cleaned up.\<close>

definition stillMounted :: "nat \<Rightarrow> bool" where
  "stillMounted k = True"

definition sampleGroup :: SharedGroup where
  "sampleGroup = \<lparr>group_key = ''g1'', title = ''Team'', description = None, codes = None\<rparr>"

section \<open>Properties of the share-link validation\<close>

text \<open>
  The guard that opens \<open>verifyShareLink\<close> and \<open>loadSharedGroup\<close> lets a route
  through when the client and both router parameters are present.
\<close>

definition linkParameters :: "route \<Rightarrow> bool" where
  "linkParameters r = (supabase r \<and> truthy (groupId r) \<and> truthy (token r))"

definition verifyRequests :: "route \<Rightarrow> call list" where
  "verifyRequests r = [GetSession, SelectShareLink (the (groupId r)) (the (token r))]"

definition allowedEmails :: "ShareLink \<Rightarrow> string list" where
  "allowedEmails link = (case allowed_emails link of None \<Rightarrow> [] | Some es \<Rightarrow> es)"

definition accessDenied :: "string \<Rightarrow> string" where
  "accessDenied userEmail =
     ''Access denied. Your email ('' @ userEmail @ '') is not authorized to view this link.''"

lemma verifyShareLink_found:
  assumes "linkParameters r"
  shows "verifyShareLink toLowerCase getTime r sessionEmail (Reply (Some link) None) now v =
     (if access_type link = restricted \<and> \<not> truthy sessionEmail then
        (False, verifyRequests r, v\<lparr>error := Some ''You must be logged in to access this link''\<rparr>)
      else if access_type link = restricted
            \<and> toLowerCase (the sessionEmail) \<notin> set (allowedEmails link) then
        (False, verifyRequests r, v\<lparr>error := Some (accessDenied (toLowerCase (the sessionEmail)))\<rparr>)
      else if (case expires_at link of
                 None \<Rightarrow> False
               | Some e \<Rightarrow> e \<noteq> [] \<and> lt (getTime e) (Num now)) then
        (False, verifyRequests r, v\<lparr>error := Some ''This share link has expired''\<rparr>)
      else (True, verifyRequests r, v))"
  using assms
  by (auto simp: verifyShareLink_def linkParameters_def truthy_def verifyRequests_def
      allowedEmails_def accessDenied_def split: option.splits bool.splits)

lemma sample_parameters: "linkParameters sampleRoute"
  by (simp add: linkParameters_def sampleRoute_def truthy_def)

lemma sample_requests: "verifyRequests sampleRoute = [GetSession, SelectShareLink ''g1'' ''tok'']"
  by (simp add: verifyRequests_def sampleRoute_def)

lemma lower_alice: "asciiLowerCase ''alice@example.com'' = ''alice@example.com''"
  by code_simp

lemma lower_Alice: "asciiLowerCase ''Alice@Example.com'' = ''alice@example.com''"
  by code_simp

text \<open>
  C1, as the code has it. The access check runs before the expiry check. For a link
  that was found and whose \<open>expires_at\<close> is set and lies strictly before \<open>now\<close>,
  the validation reports expiry when the access check passes (the link is open to
  anyone, or the requester's email is present and its lowercase form is listed);
  an expired restricted link reports the missing login when the email is absent,
  and the denied email when it is not listed.
\<close>

theorem verifyShareLink_expired_after_access_check:
  assumes "linkParameters r" and "expires_at link = Some e" and "e \<noteq> []"
    and "getTime e = Num x" and "x < now"
  shows "(access_type link = anyone \<or>
            truthy sessionEmail \<and> toLowerCase (the sessionEmail) \<in> set (allowedEmails link)
          \<longrightarrow> verifyShareLink toLowerCase getTime r sessionEmail (Reply (Some link) None) now v
                = (False, verifyRequests r, v\<lparr>error := Some ''This share link has expired''\<rparr>))
       \<and> (access_type link = restricted \<and> \<not> truthy sessionEmail
          \<longrightarrow> verifyShareLink toLowerCase getTime r sessionEmail (Reply (Some link) None) now v
                = (False, verifyRequests r,
                   v\<lparr>error := Some ''You must be logged in to access this link''\<rparr>))
       \<and> (access_type link = restricted \<and> truthy sessionEmail
            \<and> toLowerCase (the sessionEmail) \<notin> set (allowedEmails link)
          \<longrightarrow> verifyShareLink toLowerCase getTime r sessionEmail (Reply (Some link) None) now v
                = (False, verifyRequests r,
                   v\<lparr>error := Some (accessDenied (toLowerCase (the sessionEmail)))\<rparr>))"
  using assms(2-5) by (cases "access_type link") (simp_all add: verifyShareLink_found[OF assms(1)])

theorem verifyShareLink_expired_after_access_check_witness:
  "linkParameters sampleRoute
   \<and> expires_at sampleLink = Some ''2024-01-01T00:00:00.000Z''
   \<and> sampleTime ''2024-01-01T00:00:00.000Z'' = Num 1704067200000
   \<and> (1704067200000 :: int) < 1704067200001
   \<and> verifyShareLink asciiLowerCase sampleTime sampleRoute None (Reply (Some sampleLink) None)
        1704067200001 initial_view
      = (False, [GetSession, SelectShareLink ''g1'' ''tok''],
         initial_view\<lparr>error := Some ''This share link has expired''\<rparr>)
   \<and> verifyShareLink asciiLowerCase sampleTime sampleRoute None
        (Reply (Some (sampleLink\<lparr>access_type := restricted\<rparr>)) None) 1704067200001 initial_view
      = (False, [GetSession, SelectShareLink ''g1'' ''tok''],
         initial_view\<lparr>error := Some ''You must be logged in to access this link''\<rparr>)
   \<and> verifyShareLink asciiLowerCase sampleTime sampleRoute (Some ''alice@example.com'')
        (Reply (Some (sampleLink\<lparr>access_type := restricted\<rparr>)) None) 1704067200001 initial_view
      = (False, [GetSession, SelectShareLink ''g1'' ''tok''],
         initial_view\<lparr>error := Some (accessDenied ''alice@example.com'')\<rparr>)"
proof -
  have e: "expires_at sampleLink = Some ''2024-01-01T00:00:00.000Z''"
    and e': "expires_at (sampleLink\<lparr>access_type := restricted\<rparr>) = Some ''2024-01-01T00:00:00.000Z''"
    by (simp_all add: sampleLink_def)
  have n: "''2024-01-01T00:00:00.000Z'' \<noteq> []" by simp
  have t: "sampleTime ''2024-01-01T00:00:00.000Z'' = Num 1704067200000"
    by (simp add: sampleTime_def)
  have l: "(1704067200000 :: int) < 1704067200001" by simp
  have a: "access_type sampleLink = anyone"
    and a': "access_type (sampleLink\<lparr>access_type := restricted\<rparr>) = restricted"
    by (simp_all add: sampleLink_def)
  have "verifyShareLink asciiLowerCase sampleTime sampleRoute None (Reply (Some sampleLink) None)
          1704067200001 initial_view
        = (False, verifyRequests sampleRoute,
           initial_view\<lparr>error := Some ''This share link has expired''\<rparr>)"
    using verifyShareLink_expired_after_access_check
            [where toLowerCase = asciiLowerCase and getTime = sampleTime
               and sessionEmail = None and v = initial_view,
             OF sample_parameters e n t l] a
    by simp
  moreover have "verifyShareLink asciiLowerCase sampleTime sampleRoute None
          (Reply (Some (sampleLink\<lparr>access_type := restricted\<rparr>)) None) 1704067200001 initial_view
        = (False, verifyRequests sampleRoute,
           initial_view\<lparr>error := Some ''You must be logged in to access this link''\<rparr>)"
    using verifyShareLink_expired_after_access_check
            [where toLowerCase = asciiLowerCase and getTime = sampleTime
               and sessionEmail = None and v = initial_view,
             OF sample_parameters e' n t l] a'
    by (simp add: truthy_def)
  moreover have "verifyShareLink asciiLowerCase sampleTime sampleRoute (Some ''alice@example.com'')
          (Reply (Some (sampleLink\<lparr>access_type := restricted\<rparr>)) None) 1704067200001 initial_view
        = (False, verifyRequests sampleRoute,
           initial_view\<lparr>error := Some (accessDenied ''alice@example.com'')\<rparr>)"
    using verifyShareLink_expired_after_access_check
            [where toLowerCase = asciiLowerCase and getTime = sampleTime
               and sessionEmail = "Some ''alice@example.com''"
               and v = initial_view,
             OF sample_parameters e' n t l] a'
    by (simp add: truthy_def lower_alice allowedEmails_def sampleLink_def)
  ultimately show ?thesis
    using e t l by (simp add: sample_parameters sample_requests)
qed

text \<open>
  Against C1 as stated: a restricted link that expired a millisecond ago, opened
  without a session, is answered with the missing login, not with the expiry.
\<close>

theorem expired_restricted_link_reports_login:
  "lt (sampleTime ''2024-01-01T00:00:00.000Z'') (Num 1704067200001)
   \<and> verifyShareLink asciiLowerCase sampleTime sampleRoute None
        (Reply (Some (sampleLink\<lparr>access_type := restricted\<rparr>)) None) 1704067200001 initial_view
      = (False, [GetSession, SelectShareLink ''g1'' ''tok''],
         initial_view\<lparr>error := Some ''You must be logged in to access this link''\<rparr>)
   \<and> error (snd (snd (verifyShareLink asciiLowerCase sampleTime sampleRoute None
        (Reply (Some (sampleLink\<lparr>access_type := restricted\<rparr>)) None) 1704067200001 initial_view)))
      \<noteq> Some ''This share link has expired''"
  by (simp add: verifyShareLink_found[OF sample_parameters] sample_requests sampleTime_def
      sampleLink_def truthy_def initial_view_def)

text \<open>
  C4, as the code has it. For a restricted link that was found and a requester
  whose email is present, the access check passes exactly when the lowercase form
  of the requester's email is itself an entry of \<open>allowed_emails\<close>. The letter
  case of the requester's email does not matter; the stored entries are compared
  as they are stored.
\<close>

theorem verifyShareLink_restricted_lowercase_member:
  assumes "linkParameters r" and "access_type link = restricted" and "email \<noteq> []"
  shows "(toLowerCase email \<notin> set (allowedEmails link)
          \<longrightarrow> verifyShareLink toLowerCase getTime r (Some email) (Reply (Some link) None) now v
                = (False, verifyRequests r, v\<lparr>error := Some (accessDenied (toLowerCase email))\<rparr>))
       \<and> (toLowerCase email \<in> set (allowedEmails link)
          \<longrightarrow> verifyShareLink toLowerCase getTime r (Some email) (Reply (Some link) None) now v
                = (if (case expires_at link of
                         None \<Rightarrow> False
                       | Some e \<Rightarrow> e \<noteq> [] \<and> lt (getTime e) (Num now))
                   then (False, verifyRequests r, v\<lparr>error := Some ''This share link has expired''\<rparr>)
                   else (True, verifyRequests r, v)))
       \<and> (other \<noteq> [] \<and> toLowerCase other = toLowerCase email
          \<longrightarrow> verifyShareLink toLowerCase getTime r (Some other) (Reply (Some link) None) now v
                = verifyShareLink toLowerCase getTime r (Some email) (Reply (Some link) None) now v)"
  using assms(2,3) by (simp add: verifyShareLink_found[OF assms(1)] truthy_def)

theorem verifyShareLink_restricted_lowercase_member_witness:
  "linkParameters sampleRoute
   \<and> verifyShareLink asciiLowerCase sampleTime sampleRoute (Some ''Alice@Example.com'')
        (Reply (Some (sampleLink\<lparr>access_type := restricted,
                                  allowed_emails := Some [''alice@example.com'']\<rparr>)) None)
        1704067100000 initial_view
      = (True, [GetSession, SelectShareLink ''g1'' ''tok''], initial_view)
   \<and> verifyShareLink asciiLowerCase sampleTime sampleRoute (Some ''Alice@Example.com'')
        (Reply (Some (sampleLink\<lparr>access_type := restricted,
                                  allowed_emails := Some [''bob@example.com'']\<rparr>)) None)
        1704067100000 initial_view
      = (False, [GetSession, SelectShareLink ''g1'' ''tok''],
         initial_view\<lparr>error := Some (accessDenied ''alice@example.com'')\<rparr>)
   \<and> asciiLowerCase ''ALICE@EXAMPLE.COM'' = asciiLowerCase ''Alice@Example.com''
   \<and> verifyShareLink asciiLowerCase sampleTime sampleRoute (Some ''ALICE@EXAMPLE.COM'')
        (Reply (Some (sampleLink\<lparr>access_type := restricted,
                                  allowed_emails := Some [''alice@example.com'']\<rparr>)) None)
        1704067100000 initial_view
      = verifyShareLink asciiLowerCase sampleTime sampleRoute (Some ''Alice@Example.com'')
        (Reply (Some (sampleLink\<lparr>access_type := restricted,
                                  allowed_emails := Some [''alice@example.com'']\<rparr>)) None)
        1704067100000 initial_view"
proof -
  have a: "access_type (sampleLink\<lparr>access_type := restricted, allowed_emails := Some es\<rparr>)
             = restricted" for es
    by simp
  have u: "''ALICE@EXAMPLE.COM'' \<noteq> []" by simp
  have same: "asciiLowerCase ''ALICE@EXAMPLE.COM'' = asciiLowerCase ''Alice@Example.com''"
    by code_simp
  have other: "verifyShareLink asciiLowerCase sampleTime sampleRoute (Some ''ALICE@EXAMPLE.COM'')
        (Reply (Some (sampleLink\<lparr>access_type := restricted,
                                  allowed_emails := Some [''alice@example.com'']\<rparr>)) None)
        1704067100000 initial_view
      = verifyShareLink asciiLowerCase sampleTime sampleRoute (Some ''Alice@Example.com'')
        (Reply (Some (sampleLink\<lparr>access_type := restricted,
                                  allowed_emails := Some [''alice@example.com'']\<rparr>)) None)
        1704067100000 initial_view"
    by (rule verifyShareLink_restricted_lowercase_member
              [where toLowerCase = asciiLowerCase and email = "''Alice@Example.com''"
                 and other = "''ALICE@EXAMPLE.COM''",
               OF sample_parameters a, THEN conjunct2, THEN conjunct2, THEN mp,
               OF _ conjI [OF u same]])
       simp
  have n: "''Alice@Example.com'' \<noteq> []" by simp
  have "verifyShareLink asciiLowerCase sampleTime sampleRoute (Some ''Alice@Example.com'')
        (Reply (Some (sampleLink\<lparr>access_type := restricted,
                                  allowed_emails := Some [''alice@example.com'']\<rparr>)) None)
        1704067100000 initial_view
      = (True, verifyRequests sampleRoute, initial_view)"
    using verifyShareLink_restricted_lowercase_member
            [where toLowerCase = asciiLowerCase and getTime = sampleTime
               and now = 1704067100000 and v = initial_view,
             OF sample_parameters a [of "[''alice@example.com'']"] n]
    by (simp add: lower_Alice allowedEmails_def sampleLink_def sampleTime_def)
  moreover have "verifyShareLink asciiLowerCase sampleTime sampleRoute (Some ''Alice@Example.com'')
        (Reply (Some (sampleLink\<lparr>access_type := restricted,
                                  allowed_emails := Some [''bob@example.com'']\<rparr>)) None)
        1704067100000 initial_view
      = (False, verifyRequests sampleRoute,
         initial_view\<lparr>error := Some (accessDenied ''alice@example.com'')\<rparr>)"
    using verifyShareLink_restricted_lowercase_member
            [where toLowerCase = asciiLowerCase and getTime = sampleTime
               and now = 1704067100000 and v = initial_view,
             OF sample_parameters a [of "[''bob@example.com'']"] n]
    by (simp add: lower_Alice allowedEmails_def)
  ultimately show ?thesis
    using same other by (simp add: sample_parameters sample_requests)
qed

text \<open>
  Against C4 as stated: the requester \<open>alice@example.com\<close> matches the stored entry
  \<open>Alice@Example.com\<close> when letter case is ignored, and is denied.
\<close>

theorem stored_uppercase_entry_is_not_matched:
  "asciiLowerCase ''alice@example.com'' = asciiLowerCase ''Alice@Example.com''
   \<and> verifyShareLink asciiLowerCase sampleTime sampleRoute (Some ''alice@example.com'')
        (Reply (Some (sampleLink\<lparr>access_type := restricted,
                                  allowed_emails := Some [''Alice@Example.com'']\<rparr>)) None)
        1704067100000 initial_view
      = (False, [GetSession, SelectShareLink ''g1'' ''tok''],
         initial_view\<lparr>error := Some
           ''Access denied. Your email (alice@example.com) is not authorized to view this link.''\<rparr>)"
  by (simp add: verifyShareLink_found[OF sample_parameters] sample_requests lower_alice
      lower_Alice allowedEmails_def accessDenied_def truthy_def)

text \<open>
  C5 at the boundary instant. A link open to anyone whose \<open>expires_at\<close> equals
  \<open>now\<close> passes \<open>verifyShareLink\<close>, which compares with \<open><\<close>; the countdown of the
  same component, at the same instant, compares with \<open>\<le>\<close> and reports the link
  as expired.
\<close>

theorem verifyShareLink_accepts_at_expiry_instant:
  "sampleTime ''2024-01-01T00:00:00.000Z'' = Num 1704067200000
   \<and> verifyShareLink asciiLowerCase sampleTime sampleRoute None (Reply (Some sampleLink) None)
        1704067200000 initial_view
      = (True, [GetSession, SelectShareLink ''g1'' ''tok''], initial_view)
   \<and> updateTimer_link sampleTime 1704067200000 (initial_view\<lparr>shareLink := Some sampleLink\<rparr>)
      = Inr (initial_view\<lparr>shareLink := Some sampleLink, linkTimeRemaining := Some 0,
                            error := Some ''This share link has expired''\<rparr>)"
  by (simp add: verifyShareLink_found[OF sample_parameters] sample_requests sampleTime_def
      sampleLink_def updateTimer_link_def initial_view_def)

text \<open>
  C10. A restricted link whose \<open>allowed_emails\<close> is \<open>null\<close> is refused to every
  requester: without an email for the missing login, with an email because the
  list is read as empty.
\<close>

theorem verifyShareLink_null_allow_list_denies:
  assumes "linkParameters r" and "access_type link = restricted"
    and "allowed_emails link = None"
  shows "verifyShareLink toLowerCase getTime r sessionEmail (Reply (Some link) None) now v
           = (False, verifyRequests r,
              v\<lparr>error := Some (if truthy sessionEmail
                                then accessDenied (toLowerCase (the sessionEmail))
                                else ''You must be logged in to access this link'')\<rparr>)"
  using assms(2,3) by (simp add: verifyShareLink_found[OF assms(1)] allowedEmails_def)

theorem verifyShareLink_null_allow_list_denies_witness:
  "linkParameters sampleRoute
   \<and> access_type (sampleLink\<lparr>access_type := restricted\<rparr>) = restricted
   \<and> allowed_emails (sampleLink\<lparr>access_type := restricted\<rparr>) = None
   \<and> verifyShareLink asciiLowerCase sampleTime sampleRoute (Some ''alice@example.com'')
        (Reply (Some (sampleLink\<lparr>access_type := restricted\<rparr>)) None) 1704067100000 initial_view
      = (False, [GetSession, SelectShareLink ''g1'' ''tok''],
         initial_view\<lparr>error := Some (accessDenied ''alice@example.com'')\<rparr>)"
proof -
  have a: "access_type (sampleLink\<lparr>access_type := restricted\<rparr>) = restricted" by simp
  have b: "allowed_emails (sampleLink\<lparr>access_type := restricted\<rparr>) = None"
    by (simp add: sampleLink_def)
  show ?thesis
    using verifyShareLink_null_allow_list_denies
            [where toLowerCase = asciiLowerCase and getTime = sampleTime
               and sessionEmail = "Some ''alice@example.com''" and now = 1704067100000
               and v = initial_view,
             OF sample_parameters a b]
    by (simp add: sample_parameters sample_requests b lower_alice truthy_def)
qed

section \<open>Properties of the countdown text\<close>

lemma seconds_to_minutes: "(ms :: int) div 1000 div 60 = ms div 60000"
  by (simp add: zdiv_zmult2_eq [symmetric])

lemma minutes_to_hours: "(ms :: int) div 60000 div 60 = ms div 3600000"
  by (simp add: zdiv_zmult2_eq [symmetric])

lemma hours_to_days: "(ms :: int) div 3600000 div 24 = ms div 86400000"
  by (simp add: zdiv_zmult2_eq [symmetric])

lemma formatTimeRemaining_whole_units:
  "formatTimeRemaining ms =
     (if ms div 86400000 > 0 then
        showInt (ms div 86400000) @ ''d '' @ showInt (ms div 3600000 mod 24) @ ''h''
      else if ms div 3600000 > 0 then
        showInt (ms div 3600000) @ ''h '' @ showInt (ms div 60000 mod 60) @ ''m''
      else if ms div 60000 > 0 then
        showInt (ms div 60000) @ ''m '' @ showInt (ms div 1000 mod 60) @ ''s''
      else showInt (ms div 1000) @ ''s'')"
  unfolding formatTimeRemaining_def Let_def seconds_to_minutes minutes_to_hours hours_to_days
  by (rule refl)

text \<open>
  C8. With \<open>d\<close>, \<open>h\<close>, \<open>m\<close> and \<open>s\<close> the whole days, the hours of the day, the
  minutes of the hour and the seconds of the minute in \<open>ms\<close> milliseconds, a
  non-negative \<open>ms\<close> is written \<open>{d}d {h}h\<close> from one day on, else \<open>{h}h {m}m\<close>
  from one hour on, else \<open>{m}m {s}s\<close> from one minute on, else \<open>{s}s\<close>; and the
  four values of the specification come out as it says.
\<close>

theorem formatTimeRemaining_largest_unit:
  "(86400000 \<le> ms \<longrightarrow>
      formatTimeRemaining ms
        = showInt (ms div 86400000) @ ''d '' @ showInt (ms div 3600000 mod 24) @ ''h'')
   \<and> (3600000 \<le> ms \<and> ms < 86400000 \<longrightarrow>
      formatTimeRemaining ms
        = showInt (ms div 3600000) @ ''h '' @ showInt (ms div 60000 mod 60) @ ''m'')
   \<and> (60000 \<le> ms \<and> ms < 3600000 \<longrightarrow>
      formatTimeRemaining ms
        = showInt (ms div 60000) @ ''m '' @ showInt (ms div 1000 mod 60) @ ''s'')
   \<and> (0 \<le> ms \<and> ms < 60000 \<longrightarrow> formatTimeRemaining ms = showInt (ms div 1000) @ ''s'')
   \<and> formatTimeRemaining 90000 = ''1m 30s''
   \<and> formatTimeRemaining 3661000 = ''1h 1m''
   \<and> formatTimeRemaining 45000 = ''45s''
   \<and> formatTimeRemaining 0 = ''0s''"
proof -
  have days: "86400000 \<le> ms \<longrightarrow>
      formatTimeRemaining ms
        = showInt (ms div 86400000) @ ''d '' @ showInt (ms div 3600000 mod 24) @ ''h''"
    by (simp add: formatTimeRemaining_whole_units pos_imp_zdiv_pos_iff)
  have hours: "3600000 \<le> ms \<and> ms < 86400000 \<longrightarrow>
      formatTimeRemaining ms
        = showInt (ms div 3600000) @ ''h '' @ showInt (ms div 60000 mod 60) @ ''m''"
    by (simp add: formatTimeRemaining_whole_units pos_imp_zdiv_pos_iff)
  have minutes: "60000 \<le> ms \<and> ms < 3600000 \<longrightarrow>
      formatTimeRemaining ms
        = showInt (ms div 60000) @ ''m '' @ showInt (ms div 1000 mod 60) @ ''s''"
    by (simp add: formatTimeRemaining_whole_units pos_imp_zdiv_pos_iff)
  have seconds: "0 \<le> ms \<and> ms < 60000 \<longrightarrow> formatTimeRemaining ms = showInt (ms div 1000) @ ''s''"
    by (simp add: formatTimeRemaining_whole_units pos_imp_zdiv_pos_iff)
  have a: "formatTimeRemaining 90000 = ''1m 30s''" by code_simp
  have b: "formatTimeRemaining 3661000 = ''1h 1m''" by code_simp
  have c: "formatTimeRemaining 45000 = ''45s''" by code_simp
  have d: "formatTimeRemaining 0 = ''0s''" by code_simp
  from days hours minutes seconds a b c d show ?thesis by blast
qed

theorem formatTimeRemaining_largest_unit_witness:
  "(86400000 :: int) \<le> 90061000
   \<and> formatTimeRemaining 90061000 = ''1d 1h''
   \<and> (3600000 :: int) \<le> 7199999 \<and> (7199999 :: int) < 86400000
   \<and> formatTimeRemaining 7199999 = ''1h 59m''
   \<and> (60000 :: int) \<le> 125000 \<and> (125000 :: int) < 3600000
   \<and> formatTimeRemaining 125000 = ''2m 5s''
   \<and> (0 :: int) \<le> 59999 \<and> (59999 :: int) < 60000
   \<and> formatTimeRemaining 59999 = ''59s''"
proof -
  have d: "showInt (90061000 div 86400000) @ ''d '' @ showInt (90061000 div 3600000 mod 24) @ ''h''
             = ''1d 1h''"
    by code_simp
  have h: "showInt (7199999 div 3600000) @ ''h '' @ showInt (7199999 div 60000 mod 60) @ ''m''
             = ''1h 59m''"
    by code_simp
  have m: "showInt (125000 div 60000) @ ''m '' @ showInt (125000 div 1000 mod 60) @ ''s''
             = ''2m 5s''"
    by code_simp
  have s: "showInt (59999 div 1000) @ ''s'' = ''59s''"
    by code_simp
  have "formatTimeRemaining 90061000 = ''1d 1h''"
    using formatTimeRemaining_largest_unit [of 90061000] d by simp
  moreover have "formatTimeRemaining 7199999 = ''1h 59m''"
    using formatTimeRemaining_largest_unit [of 7199999] h by simp
  moreover have "formatTimeRemaining 125000 = ''2m 5s''"
    using formatTimeRemaining_largest_unit [of 125000] m by simp
  moreover have "formatTimeRemaining 59999 = ''59s''"
    using formatTimeRemaining_largest_unit [of 59999] s by simp
  ultimately show ?thesis by simp
qed

section \<open>Properties of the shared view\<close>

lemma verifyShareLink_no_route:
  assumes "\<not> linkParameters r"
  shows "verifyShareLink toLowerCase getTime r sessionEmail found now v
           = (False, [], v\<lparr>error := Some ''Invalid link parameters''\<rparr>)"
  using assms
  by (auto simp: verifyShareLink_def linkParameters_def truthy_def split: option.splits bool.splits)

lemma verifyShareLink_rejects:
  assumes "verifyShareLink toLowerCase getTime r sessionEmail found now v = (False, sent1, v1)"
  shows "\<exists>m. m \<noteq> [] \<and> v1 = v\<lparr>error := Some m\<rparr>"
  using assms
  by (auto simp: verifyShareLink_def Let_def split: option.splits bool.splits if_splits)

lemma verifyShareLink_accepts:
  assumes "verifyShareLink toLowerCase getTime r sessionEmail found now v = (True, sent1, v1)"
  shows "v1 = v \<and> linkParameters r"
  using assms
  by (auto simp: verifyShareLink_def linkParameters_def truthy_def Let_def
      split: option.splits bool.splits if_splits)

lemma verifyShareLink_never_registers:
  assumes "verifyShareLink toLowerCase getTime r sessionEmail found now v = (ok, sent1, v1)"
  shows "HandleShareLinkView g t \<notin> set sent1"
  using assms
  by (auto simp: verifyShareLink_def Let_def split: option.splits bool.splits if_splits)

lemma loadSharedGroup_no_route:
  assumes "\<not> linkParameters r"
  shows "loadSharedGroup toLowerCase getTime r sessionEmail found now mounted rpc groupAns codesAns v
           = ([], v\<lparr>error := Some ''Invalid link parameters'', loading := False\<rparr>)"
  using assms
  by (auto simp: loadSharedGroup_def linkParameters_def truthy_def split: option.splits bool.splits)

lemma loadSharedGroup_rejected:
  assumes "linkParameters r"
    and "verifyShareLink toLowerCase getTime r sessionEmail found now v = (False, sent1, v1)"
  shows "loadSharedGroup toLowerCase getTime r sessionEmail found now mounted rpc groupAns codesAns v
           = (sent1, loadSharedGroup_finally (mounted 1) v1)"
  using assms
  by (auto simp: loadSharedGroup_def linkParameters_def truthy_def split: option.splits bool.splits)

lemma loadSharedGroup_unmounted:
  assumes "linkParameters r"
    and "verifyShareLink toLowerCase getTime r sessionEmail found now v = (True, sent1, v1)"
    and "\<not> mounted 1"
  shows "loadSharedGroup toLowerCase getTime r sessionEmail found now mounted rpc groupAns codesAns v
           = (sent1, v1)"
  using assms
  by (auto simp: loadSharedGroup_def loadSharedGroup_finally_def linkParameters_def truthy_def
      split: option.splits bool.splits)

lemma loadSharedGroup_accepted:
  assumes "linkParameters r"
    and "verifyShareLink toLowerCase getTime r sessionEmail found now v = (True, sent1, v1)"
    and "mounted 1"
  shows "\<exists>rest. fst (loadSharedGroup toLowerCase getTime r sessionEmail found now mounted rpc groupAns codesAns v)
           = sent1 @ HandleShareLinkView (the (groupId r)) (the (token r)) # rest
           \<and> (\<forall>g t. HandleShareLinkView g t \<notin> set rest)"
  using assms
  by (auto simp: loadSharedGroup_def linkParameters_def truthy_def Let_def
      split: option.splits bool.splits)

lemma render_error:
  assumes "m \<noteq> []"
  shows "render (v\<lparr>error := Some m\<rparr>)
           = ErrorCard (if wasDeleted v then ''Link Deleted'' else ''Access Denied'') m"
    and "render (v\<lparr>error := Some m, loading := b\<rparr>)
           = ErrorCard (if wasDeleted v then ''Link Deleted'' else ''Access Denied'') m"
  using assms by (simp_all add: render_def truthy_def)

text \<open>
  C6. In a load of the shared view, the procedure \<open>handle_share_link_view\<close> is
  requested only when \<open>verifyShareLink\<close> has returned \<open>true\<close>, and then after the
  requests of the validation. When the validation fails the procedure is not
  requested, \<open>error\<close> holds a non-empty message, so that the component renders
  the error card, and the group, the latest code and the link of the view are
  left as they were.
\<close>

theorem loadSharedGroup_registers_view_only_when_valid:
  assumes verify: "verifyShareLink toLowerCase getTime r sessionEmail found now v = (isValid, sent1, v1)"
    and load: "loadSharedGroup toLowerCase getTime r sessionEmail found now mounted rpc groupAns codesAns v
                 = (sent, v')"
  shows "(HandleShareLinkView g t \<in> set sent
          \<longrightarrow> isValid \<and> (\<exists>rest. sent = sent1 @ HandleShareLinkView g t # rest))
       \<and> (\<not> isValid
          \<longrightarrow> HandleShareLinkView g t \<notin> set sent
              \<and> (\<exists>m. m \<noteq> [] \<and> error v' = Some m
                    \<and> render v'
                        = ErrorCard (if wasDeleted v then ''Link Deleted'' else ''Access Denied'') m)
              \<and> group v' = group v \<and> latestCode v' = latestCode v
              \<and> shareLink v' = shareLink v)"
proof (cases isValid)
  case False
  then have verify': "verifyShareLink toLowerCase getTime r sessionEmail found now v = (False, sent1, v1)"
    using verify by simp
  from verifyShareLink_rejects [OF verify']
  obtain m where m: "m \<noteq> []" "v1 = v\<lparr>error := Some m\<rparr>"
    by (elim exE conjE)
  have no_call: "HandleShareLinkView g t \<notin> set sent1"
    using verify by (rule verifyShareLink_never_registers)
  have outcome: "sent = sent1 \<and> (v' = v1 \<or> v' = v1\<lparr>loading := False\<rparr>)"
  proof (cases "linkParameters r")
    case True
    have "(sent, v') = (sent1, loadSharedGroup_finally (mounted 1) v1)"
      using loadSharedGroup_rejected
              [where mounted = mounted and rpc = rpc and groupAns = groupAns
                 and codesAns = codesAns, OF True verify'] load
      by simp
    then show ?thesis
      by (cases "mounted 1") (simp_all add: loadSharedGroup_finally_def)
  next
    case no_route: False
    have "(False, sent1, v1) = (False, [], v\<lparr>error := Some ''Invalid link parameters''\<rparr>)"
      using verifyShareLink_no_route
              [where toLowerCase = toLowerCase and getTime = getTime
                 and sessionEmail = sessionEmail and found = found and now = now and v = v,
               OF no_route] verify'
      by simp
    moreover have "(sent, v') = ([], v\<lparr>error := Some ''Invalid link parameters'', loading := False\<rparr>)"
      using loadSharedGroup_no_route
              [where toLowerCase = toLowerCase and getTime = getTime
                 and sessionEmail = sessionEmail and found = found and now = now
                 and mounted = mounted and rpc = rpc and groupAns = groupAns
                 and codesAns = codesAns and v = v, OF no_route] load
      by simp
    ultimately show ?thesis by simp
  qed
  have shown: "error v' = Some m
      \<and> render v' = ErrorCard (if wasDeleted v then ''Link Deleted'' else ''Access Denied'') m"
    using outcome m render_error [where v = v and m = m] by (elim conjE disjE) simp_all
  have kept: "group v' = group v \<and> latestCode v' = latestCode v \<and> shareLink v' = shareLink v"
    using outcome m(2) by (elim conjE disjE) simp_all
  have "HandleShareLinkView g t \<notin> set sent"
    using outcome no_call by simp
  with False m(1) shown kept show ?thesis by blast
next
  case True
  then have verify': "verifyShareLink toLowerCase getTime r sessionEmail found now v = (True, sent1, v1)"
    using verify by simp
  from verifyShareLink_accepts [OF verify'] have route: "linkParameters r" by (rule conjunct2)
  have no_call: "HandleShareLinkView g t \<notin> set sent1"
    using verify by (rule verifyShareLink_never_registers)
  have "HandleShareLinkView g t \<in> set sent
          \<longrightarrow> (\<exists>rest. sent = sent1 @ HandleShareLinkView g t # rest)"
  proof (cases "mounted 1")
    case False
    have "(sent, v') = (sent1, v1)"
      using loadSharedGroup_unmounted
              [where mounted = mounted and rpc = rpc and groupAns = groupAns
                 and codesAns = codesAns, OF route verify' False] load
      by simp
    with no_call show ?thesis by simp
  next
    case mounted: True
    from loadSharedGroup_accepted
           [where mounted = mounted and rpc = rpc and groupAns = groupAns
              and codesAns = codesAns, OF route verify' mounted]
    obtain rest where
      "fst (loadSharedGroup toLowerCase getTime r sessionEmail found now mounted rpc groupAns codesAns v)
         = sent1 @ HandleShareLinkView (the (groupId r)) (the (token r)) # rest"
      and rest: "\<forall>g t. HandleShareLinkView g t \<notin> set rest"
      by (elim exE conjE)
    with load have sent: "sent = sent1 @ HandleShareLinkView (the (groupId r)) (the (token r)) # rest"
      by simp
    show ?thesis
    proof
      assume "HandleShareLinkView g t \<in> set sent"
      then have "HandleShareLinkView g t \<in> set sent1
          \<or> HandleShareLinkView g t = HandleShareLinkView (the (groupId r)) (the (token r))
          \<or> HandleShareLinkView g t \<in> set rest"
        unfolding sent by auto
      with no_call rest
      have "HandleShareLinkView g t = HandleShareLinkView (the (groupId r)) (the (token r))"
        by blast
      then have "sent = sent1 @ HandleShareLinkView g t # rest"
        using sent by simp
      then show "\<exists>rest. sent = sent1 @ HandleShareLinkView g t # rest" ..
    qed
  qed
  with True show ?thesis by blast
qed

theorem loadSharedGroup_registers_view_only_when_valid_witness:
  "verifyShareLink asciiLowerCase sampleTime sampleRoute None (Reply (Some sampleLink) None)
       1704067200001 initial_view
     = (False, [GetSession, SelectShareLink ''g1'' ''tok''],
        initial_view\<lparr>error := Some ''This share link has expired''\<rparr>)
   \<and> loadSharedGroup asciiLowerCase sampleTime sampleRoute None (Reply (Some sampleLink) None) 1704067200001
        stillMounted (Reply (Some (Some sampleLink)) None) (Reply (Some sampleGroup) None)
        (Reply (Some []) None) initial_view
     = ([GetSession, SelectShareLink ''g1'' ''tok''],
        initial_view\<lparr>error := Some ''This share link has expired'', loading := False\<rparr>)
   \<and> HandleShareLinkView ''g1'' ''tok'' \<notin> set [GetSession, SelectShareLink ''g1'' ''tok'']
   \<and> group (initial_view\<lparr>error := Some ''This share link has expired'', loading := False\<rparr>)
       = group initial_view
   \<and> verifyShareLink asciiLowerCase sampleTime sampleRoute None (Reply (Some sampleLink) None)
       1704067100000 initial_view
     = (True, [GetSession, SelectShareLink ''g1'' ''tok''], initial_view)
   \<and> loadSharedGroup asciiLowerCase sampleTime sampleRoute None (Reply (Some sampleLink) None) 1704067100000
        stillMounted (Reply (Some (Some sampleLink)) None) (Reply (Some sampleGroup) None)
        (Reply (Some []) None) initial_view
     = ([GetSession, SelectShareLink ''g1'' ''tok'', HandleShareLinkView ''g1'' ''tok'',
         SelectGroup ''g1'', SelectLatestCode ''g1''],
        initial_view\<lparr>shareLink := Some sampleLink, latestCode := None,
                       group := Some sampleGroup, loading := False\<rparr>)
   \<and> (\<exists>rest. [GetSession, SelectShareLink ''g1'' ''tok'', HandleShareLinkView ''g1'' ''tok'',
                SelectGroup ''g1'', SelectLatestCode ''g1'']
              = [GetSession, SelectShareLink ''g1'' ''tok'']
                  @ HandleShareLinkView ''g1'' ''tok'' # rest)"
proof -
  have v1: "verifyShareLink asciiLowerCase sampleTime sampleRoute None (Reply (Some sampleLink) None)
       1704067200001 initial_view
     = (False, [GetSession, SelectShareLink ''g1'' ''tok''],
        initial_view\<lparr>error := Some ''This share link has expired''\<rparr>)"
    by (simp add: verifyShareLink_found [OF sample_parameters] sample_requests sampleTime_def
        sampleLink_def)
  have l1: "loadSharedGroup asciiLowerCase sampleTime sampleRoute None (Reply (Some sampleLink) None) 1704067200001
        stillMounted (Reply (Some (Some sampleLink)) None) (Reply (Some sampleGroup) None)
        (Reply (Some []) None) initial_view
     = ([GetSession, SelectShareLink ''g1'' ''tok''],
        initial_view\<lparr>error := Some ''This share link has expired'', loading := False\<rparr>)"
    by (simp add: loadSharedGroup_rejected [OF sample_parameters v1] loadSharedGroup_finally_def
        stillMounted_def)
  have v2: "verifyShareLink asciiLowerCase sampleTime sampleRoute None (Reply (Some sampleLink) None)
       1704067100000 initial_view
     = (True, [GetSession, SelectShareLink ''g1'' ''tok''], initial_view)"
    by (simp add: verifyShareLink_found [OF sample_parameters] sample_requests sampleTime_def
        sampleLink_def)
  have l2: "loadSharedGroup asciiLowerCase sampleTime sampleRoute None (Reply (Some sampleLink) None) 1704067100000
        stillMounted (Reply (Some (Some sampleLink)) None) (Reply (Some sampleGroup) None)
        (Reply (Some []) None) initial_view
     = ([GetSession, SelectShareLink ''g1'' ''tok'', HandleShareLinkView ''g1'' ''tok'',
         SelectGroup ''g1'', SelectLatestCode ''g1''],
        initial_view\<lparr>shareLink := Some sampleLink, latestCode := None,
                       group := Some sampleGroup, loading := False\<rparr>)"
    by (simp add: loadSharedGroup_def v2 [unfolded sampleRoute_def] sampleRoute_def
        loadSharedGroup_finally_def stillMounted_def)
  note rejected = loadSharedGroup_registers_view_only_when_valid
                    [OF v1 l1, of "''g1''" "''tok''", THEN conjunct2, THEN mp]
  note accepted = loadSharedGroup_registers_view_only_when_valid
                    [OF v2 l2, of "''g1''" "''tok''", THEN conjunct1, THEN mp]
  have not_valid: "\<not> False" by simp
  have requested: "HandleShareLinkView ''g1'' ''tok''
      \<in> set [GetSession, SelectShareLink ''g1'' ''tok'', HandleShareLinkView ''g1'' ''tok'',
              SelectGroup ''g1'', SelectLatestCode ''g1'']"
    by simp
  note r = rejected [OF not_valid]
  note r1 = r [THEN conjunct1]
  note r2 = r [THEN conjunct2, THEN conjunct2, THEN conjunct1]
  note a1 = accepted [OF requested, THEN conjunct2]
  show ?thesis
    by (rule conjI [OF v1 conjI [OF l1 conjI [OF r1 conjI [OF r2 conjI [OF v2 conjI [OF l2 a1]]]]]])
qed

text \<open>
  C7. The callback of the \<open>DELETE\<close> channel exists while the view is subscribed.
  Whatever the event carries, it sends the query for the row of the viewed link.
  When the query returns no error and no row, the view is marked deleted, the
  deletion message becomes the error and the group is cleared; when the query
  returns an error or a row, the view is left as it was.
\<close>

theorem linkChannel_rechecks_existence:
  assumes "subscribed r v"
  shows "\<exists>l. shareLink v = Some l
           \<and> linkChannel r payload answer v
               = Some ([SelectLinkId (link_id l)],
                       if reply_error answer = None \<and> reply_data answer = None then
                         v\<lparr>wasDeleted := True,
                           error := Some ''This shared link has been deleted by the administrator.'',
                           group := None\<rparr>
                       else v)"
  using assms
  by (auto simp: linkChannel_def subscribed_def validateLinkExists_def truthy_def Let_def
      split: option.splits bool.splits)

theorem linkChannel_rechecks_existence_witness:
  "subscribed sampleRoute (initial_view\<lparr>shareLink := Some sampleLink, group := Some sampleGroup\<rparr>)
   \<and> linkChannel sampleRoute ''DELETE'' (Reply None None)
        (initial_view\<lparr>shareLink := Some sampleLink, group := Some sampleGroup\<rparr>)
      = Some ([SelectLinkId ''l1''],
              initial_view\<lparr>shareLink := Some sampleLink, group := None, wasDeleted := True,
                error := Some ''This shared link has been deleted by the administrator.''\<rparr>)
   \<and> linkChannel sampleRoute ''DELETE'' (Reply (Some ''l1'') None)
        (initial_view\<lparr>shareLink := Some sampleLink, group := Some sampleGroup\<rparr>)
      = Some ([SelectLinkId ''l1''],
              initial_view\<lparr>shareLink := Some sampleLink, group := Some sampleGroup\<rparr>)
   \<and> linkChannel sampleRoute ''DELETE'' (Reply None (Some ''timeout''))
        (initial_view\<lparr>shareLink := Some sampleLink, group := Some sampleGroup\<rparr>)
      = Some ([SelectLinkId ''l1''],
              initial_view\<lparr>shareLink := Some sampleLink, group := Some sampleGroup\<rparr>)"
proof -
  have s: "subscribed sampleRoute
             (initial_view\<lparr>shareLink := Some sampleLink, group := Some sampleGroup\<rparr>)"
    by (simp add: subscribed_def sampleRoute_def sampleLink_def truthy_def)
  have i: "link_id sampleLink = ''l1''"
    by (simp add: sampleLink_def)
  have absent: "linkChannel sampleRoute ''DELETE'' (Reply None None)
        (initial_view\<lparr>shareLink := Some sampleLink, group := Some sampleGroup\<rparr>)
      = Some ([SelectLinkId ''l1''],
              initial_view\<lparr>shareLink := Some sampleLink, group := None, wasDeleted := True,
                error := Some ''This shared link has been deleted by the administrator.''\<rparr>)"
    using linkChannel_rechecks_existence [OF s, of "''DELETE''" "Reply None None"]
    by (simp add: i)
  have present: "linkChannel sampleRoute ''DELETE'' (Reply (Some ''l1'') None)
        (initial_view\<lparr>shareLink := Some sampleLink, group := Some sampleGroup\<rparr>)
      = Some ([SelectLinkId ''l1''],
              initial_view\<lparr>shareLink := Some sampleLink, group := Some sampleGroup\<rparr>)"
    using linkChannel_rechecks_existence [OF s, of "''DELETE''" "Reply (Some ''l1'') None"]
    by (simp add: i)
  have failed: "linkChannel sampleRoute ''DELETE'' (Reply None (Some ''timeout''))
        (initial_view\<lparr>shareLink := Some sampleLink, group := Some sampleGroup\<rparr>)
      = Some ([SelectLinkId ''l1''],
              initial_view\<lparr>shareLink := Some sampleLink, group := Some sampleGroup\<rparr>)"
    using linkChannel_rechecks_existence [OF s, of "''DELETE''" "Reply None (Some ''timeout'')"]
    by (simp add: i)
  show ?thesis
    by (rule conjI [OF s conjI [OF absent conjI [OF present failed]]])
qed

section \<open>Properties of the code publisher\<close>

lemma step_inactive:
  assumes "\<not> isActive p"
  shows "\<not> isActive (step secret modelId ev p)
       \<and> code (step secret modelId ev p) = code p
       \<and> updateError (step secret modelId ev p) = updateError p
       \<and> timeRemaining (step secret modelId ev p) = timeRemaining p"
  using assms
  by (cases ev)
     (simp_all add: step_def updateTimer_def forceUpdate_def updateCode_generated_def
        updateCode_persisted_def updateCode_catch_def cleanup_def Let_def split: settled.splits)

lemma run_inactive:
  assumes "\<not> isActive p"
  shows "code (run secret modelId evs p) = code p
       \<and> updateError (run secret modelId evs p) = updateError p
       \<and> timeRemaining (run secret modelId evs p) = timeRemaining p"
  using assms
proof (induction evs arbitrary: p)
  case Nil
  show ?case by simp
next
  case (Cons ev evs)
  from step_inactive [OF Cons.prems, of secret modelId ev]
  have "\<not> isActive (step secret modelId ev p)"
    and same: "code (step secret modelId ev p) = code p"
      "updateError (step secret modelId ev p) = updateError p"
      "timeRemaining (step secret modelId ev p) = timeRemaining p"
    by simp_all
  from Cons.IH [OF this(1)] same show ?case by simp
qed

text \<open>
  C2. Once the effect is cleaned up, whatever runs afterwards (the outcomes of the
  calls that were pending, in any order and with any result, or a timer callback)
  leaves the displayed code, the error flag and the remaining time as they were
  at the cleanup.
\<close>

theorem no_update_after_deactivation:
  "code (run secret modelId (Deactivate # evs) p) = code p
   \<and> updateError (run secret modelId (Deactivate # evs) p) = updateError p
   \<and> timeRemaining (run secret modelId (Deactivate # evs) p) = timeRemaining p"
proof -
  have "\<not> isActive (cleanup p)" by (simp add: cleanup_def)
  from run_inactive [OF this, of secret modelId evs]
  show ?thesis by (simp add: step_def cleanup_def)
qed

theorem no_update_after_deactivation_witness:
  "code (run ''JBSWY3DPEHPK3PXP'' ''m1'' [Deactivate, Persisted 0 (Fulfilled False)]
           (run ''JBSWY3DPEHPK3PXP'' ''m1'' [Generated 0 (Fulfilled ''123456'')]
              (activate (Some ''JBSWY3DPEHPK3PXP'') 17 initial_display))) = ''123456''
   \<and> updateError (run ''JBSWY3DPEHPK3PXP'' ''m1'' [Deactivate, Persisted 0 (Fulfilled False)]
           (run ''JBSWY3DPEHPK3PXP'' ''m1'' [Generated 0 (Fulfilled ''123456'')]
              (activate (Some ''JBSWY3DPEHPK3PXP'') 17 initial_display))) = False
   \<and> timeRemaining (run ''JBSWY3DPEHPK3PXP'' ''m1'' [Deactivate, Persisted 0 (Fulfilled False)]
           (run ''JBSWY3DPEHPK3PXP'' ''m1'' [Generated 0 (Fulfilled ''123456'')]
              (activate (Some ''JBSWY3DPEHPK3PXP'') 17 initial_display))) = 17"
proof -
  have before: "run ''JBSWY3DPEHPK3PXP'' ''m1'' [Generated 0 (Fulfilled ''123456'')]
                  (activate (Some ''JBSWY3DPEHPK3PXP'') 17 initial_display)
      = \<lparr>code = ''123456'', updateError = False, timeRemaining = 17, isActive = True,
         timerInterval = True, forceUpdateInterval = True, inflight = [AwaitPersist],
         requests = [GenerateTOTP ''JBSWY3DPEHPK3PXP'', UpdateModelCode ''m1'' ''123456'']\<rparr>"
    by (simp add: activate_def initial_display_def updateCode_def updateTimer_def step_def
        updateCode_generated_def)
  show ?thesis
    unfolding before
    using no_update_after_deactivation
            [of "''JBSWY3DPEHPK3PXP''" "''m1''" "[Persisted 0 (Fulfilled False)]"
               "\<lparr>code = ''123456'', updateError = False, timeRemaining = 17, isActive = True,
                 timerInterval = True, forceUpdateInterval = True, inflight = [AwaitPersist],
                 requests = [GenerateTOTP ''JBSWY3DPEHPK3PXP'',
                             UpdateModelCode ''m1'' ''123456'']\<rparr>"]
    by simp
qed

text \<open>
  C3 at a persistence that throws. The code \<open>123456\<close> has been generated and is
  displayed; when \<open>updateModelCode\<close> throws, the \<open>catch\<close> block written for the
  generation raises the error flag and replaces the displayed code by \<open>Error\<close>.
  When \<open>updateModelCode\<close> returns \<open>false\<close> instead, the flag is raised and the
  code stays.
\<close>

theorem persist_throw_replaces_displayed_code:
  "code (run ''JBSWY3DPEHPK3PXP'' ''m1'' [Generated 0 (Fulfilled ''123456'')]
           (activate (Some ''JBSWY3DPEHPK3PXP'') 17 initial_display)) = ''123456''
   \<and> code (run ''JBSWY3DPEHPK3PXP'' ''m1'' [Generated 0 (Fulfilled ''123456''), Persisted 0 Thrown]
           (activate (Some ''JBSWY3DPEHPK3PXP'') 17 initial_display)) = ''Error''
   \<and> updateError (run ''JBSWY3DPEHPK3PXP'' ''m1''
           [Generated 0 (Fulfilled ''123456''), Persisted 0 Thrown]
           (activate (Some ''JBSWY3DPEHPK3PXP'') 17 initial_display)) = True
   \<and> code (run ''JBSWY3DPEHPK3PXP'' ''m1''
           [Generated 0 (Fulfilled ''123456''), Persisted 0 (Fulfilled False)]
           (activate (Some ''JBSWY3DPEHPK3PXP'') 17 initial_display)) = ''123456''
   \<and> updateError (run ''JBSWY3DPEHPK3PXP'' ''m1''
           [Generated 0 (Fulfilled ''123456''), Persisted 0 (Fulfilled False)]
           (activate (Some ''JBSWY3DPEHPK3PXP'') 17 initial_display)) = True"
  by (simp add: activate_def initial_display_def updateCode_def updateTimer_def step_def
      updateCode_generated_def updateCode_persisted_def updateCode_catch_def drop_at_def)

text \<open>
  C9. A tick of the one-second timer in an active effect stores the remaining time
  and leaves the code and the error flag alone. It starts a regeneration exactly
  when the remaining time is 30 or 0: then \<open>generateTOTP\<close> is requested, and
  when it yields a code, \<open>updateModelCode\<close> is requested with it. For any other
  remaining time the tick changes nothing but the remaining time.
\<close>

theorem updateTimer_regenerates_at_30_and_0:
  assumes "isActive p"
  shows "timeRemaining (updateTimer secret remaining p) = remaining
       \<and> code (updateTimer secret remaining p) = code p
       \<and> updateError (updateTimer secret remaining p) = updateError p
       \<and> (remaining = 30 \<or> remaining = 0 \<longrightarrow>
            updateTimer secret remaining p
              = p\<lparr>timeRemaining := remaining,
                   inflight := inflight p @ [AwaitGenerate],
                   requests := requests p @ [GenerateTOTP secret]\<rparr>
            \<and> requests (updateCode_generated modelId (length (inflight p)) (Fulfilled newCode)
                          (updateTimer secret remaining p))
                = requests p @ [GenerateTOTP secret, UpdateModelCode modelId newCode])
       \<and> (remaining \<noteq> 30 \<and> remaining \<noteq> 0 \<longrightarrow>
            updateTimer secret remaining p = p\<lparr>timeRemaining := remaining\<rparr>)
       \<and> (timerInterval p \<longrightarrow>
            step secret modelId (Tick remaining) p = updateTimer secret remaining p)"
  using assms
  by (auto simp: updateTimer_def updateCode_def updateCode_generated_def step_def Let_def)

theorem updateTimer_regenerates_at_30_and_0_witness:
  "isActive (activate (Some ''JBSWY3DPEHPK3PXP'') 17 initial_display)
   \<and> requests (updateTimer ''JBSWY3DPEHPK3PXP'' 30 (activate (Some ''JBSWY3DPEHPK3PXP'') 17 initial_display))
       = [GenerateTOTP ''JBSWY3DPEHPK3PXP'', GenerateTOTP ''JBSWY3DPEHPK3PXP'']
   \<and> requests (updateTimer ''JBSWY3DPEHPK3PXP'' 0 (activate (Some ''JBSWY3DPEHPK3PXP'') 17 initial_display))
       = [GenerateTOTP ''JBSWY3DPEHPK3PXP'', GenerateTOTP ''JBSWY3DPEHPK3PXP'']
   \<and> requests (updateTimer ''JBSWY3DPEHPK3PXP'' 29 (activate (Some ''JBSWY3DPEHPK3PXP'') 17 initial_display))
       = [GenerateTOTP ''JBSWY3DPEHPK3PXP'']
   \<and> timeRemaining (updateTimer ''JBSWY3DPEHPK3PXP'' 29
        (activate (Some ''JBSWY3DPEHPK3PXP'') 17 initial_display)) = 29
   \<and> timerInterval (activate (Some ''JBSWY3DPEHPK3PXP'') 17 initial_display)
   \<and> step ''JBSWY3DPEHPK3PXP'' ''m1'' (Tick 29) (activate (Some ''JBSWY3DPEHPK3PXP'') 17 initial_display)
       = updateTimer ''JBSWY3DPEHPK3PXP'' 29 (activate (Some ''JBSWY3DPEHPK3PXP'') 17 initial_display)"
proof -
  have started: "activate (Some ''JBSWY3DPEHPK3PXP'') 17 initial_display
      = \<lparr>code = [], updateError = False, timeRemaining = 17, isActive = True,
         timerInterval = True, forceUpdateInterval = True, inflight = [AwaitGenerate],
         requests = [GenerateTOTP ''JBSWY3DPEHPK3PXP'']\<rparr>"
    by (simp add: activate_def initial_display_def updateCode_def updateTimer_def)
  have active: "isActive (activate (Some ''JBSWY3DPEHPK3PXP'') 17 initial_display)"
    by (simp add: started)
  have at30: "requests (updateTimer ''JBSWY3DPEHPK3PXP'' 30
                (activate (Some ''JBSWY3DPEHPK3PXP'') 17 initial_display))
       = [GenerateTOTP ''JBSWY3DPEHPK3PXP'', GenerateTOTP ''JBSWY3DPEHPK3PXP'']"
    using updateTimer_regenerates_at_30_and_0 [OF active, of "''JBSWY3DPEHPK3PXP''" 30]
    by (simp add: started)
  have at0: "requests (updateTimer ''JBSWY3DPEHPK3PXP'' 0
                (activate (Some ''JBSWY3DPEHPK3PXP'') 17 initial_display))
       = [GenerateTOTP ''JBSWY3DPEHPK3PXP'', GenerateTOTP ''JBSWY3DPEHPK3PXP'']"
    using updateTimer_regenerates_at_30_and_0 [OF active, of "''JBSWY3DPEHPK3PXP''" 0]
    by (simp add: started)
  have at29: "requests (updateTimer ''JBSWY3DPEHPK3PXP'' 29
                (activate (Some ''JBSWY3DPEHPK3PXP'') 17 initial_display))
       = [GenerateTOTP ''JBSWY3DPEHPK3PXP'']
     \<and> timeRemaining (updateTimer ''JBSWY3DPEHPK3PXP'' 29
        (activate (Some ''JBSWY3DPEHPK3PXP'') 17 initial_display)) = 29"
    using updateTimer_regenerates_at_30_and_0 [OF active, of "''JBSWY3DPEHPK3PXP''" 29]
    by (simp add: started)
  have armed: "timerInterval (activate (Some ''JBSWY3DPEHPK3PXP'') 17 initial_display)"
    by (simp add: started)
  note ticked = updateTimer_regenerates_at_30_and_0
                  [where secret = "''JBSWY3DPEHPK3PXP''" and remaining = 29 and modelId = "''m1''",
                   OF active, THEN conjunct2, THEN conjunct2, THEN conjunct2, THEN conjunct2,
                   THEN conjunct2, THEN mp, OF armed]
  show ?thesis
    by (rule conjI [OF active conjI [OF at30 conjI [OF at0 conjI [OF at29 [THEN conjunct1]
          conjI [OF at29 [THEN conjunct2] conjI [OF armed ticked]]]]]])
qed

end
